theory Spec2Isabelle
  imports Main "HOL-Library.AList" "HOL-Library.Log_Nat"
begin

section \<open>Python values\<close>

text \<open>
  The tool in \<^verbatim>\<open>examples/agent-integration/disclose_tool.py\<close> works on whatever
  \<^verbatim>\<open>json.loads\<close> returns. A parsed document is modelled by the datatype \<open>json\<close>:
  \<open>JNull\<close> is Python's \<^verbatim>\<open>None\<close>, \<open>JObj\<close> is a \<^verbatim>\<open>dict\<close> given by its items in
  insertion order (its keys are distinct), \<open>JArr\<close> is a \<^verbatim>\<open>list\<close>. Strings are byte
  strings in UTF-8; every pattern the code searches for is ASCII, so the string
  operations below agree with Python's on code points.

  A Python \<^verbatim>\<open>float\<close> is an IEEE-754 binary64 value: \<open>Fin q\<close> is the finite double
  whose exact value is the rational \<open>q\<close> (\<open>Fin 0\<close> is \<^verbatim>\<open>0.0\<close>), \<open>NZero\<close> is
  \<^verbatim>\<open>-0.0\<close>, \<open>PInf\<close> and \<open>NInf\<close> are the two infinities and \<open>NaN\<close> is
  not-a-number.
\<close>

datatype pyfloat = Fin rat | NZero | PInf | NInf | NaN

datatype json =
    JNull
  | JBool bool
  | JInt int
  | JFloat pyfloat
  | JStr string
  | JArr "json list"
  | JObj "(string \<times> json) list"

text \<open>The exceptions that can leave the functions of the module.\<close>

datatype exc =
    AttributeError
  | TypeError
  | KeyError
  | ValueError
  | OverflowError
  | ZeroDivisionError

section \<open>String methods\<close>

definition startswith :: "string \<Rightarrow> string \<Rightarrow> bool" where
  "startswith s p = (take (length p) s = p)"

definition removeprefix :: "string \<Rightarrow> string \<Rightarrow> string" where
  "removeprefix s p = (if startswith s p then drop (length p) s else s)"

text \<open>\<^verbatim>\<open>s.rstrip(cs)\<close> removes every trailing character that occurs in \<open>cs\<close>.\<close>

definition rstrip :: "string \<Rightarrow> string \<Rightarrow> string" where
  "rstrip s cs = rev (dropWhile (\<lambda>c. c \<in> set cs) (rev s))"

text \<open>\<^verbatim>\<open>sub in s\<close> for two strings.\<close>

fun str_contains :: "string \<Rightarrow> string \<Rightarrow> bool" where
  "str_contains [] sub = (sub = [])"
| "str_contains (c # s) sub = (startswith (c # s) sub \<or> str_contains s sub)"

text \<open>
  \<^verbatim>\<open>s.replace(old, new)\<close> replaces every occurrence of \<open>old\<close>, scanning from the
  left without overlaps; an empty \<open>old\<close> matches before every character and at the end.
\<close>

function replace :: "string \<Rightarrow> string \<Rightarrow> string \<Rightarrow> string" where
  "replace [] old new = (if old = [] then new else [])"
| "replace (c # s) old new =
     (if old = [] then new @ c # replace s old new
      else if startswith (c # s) old then new @ replace (drop (length old) (c # s)) old new
      else c # replace s old new)"
  by pat_completeness auto
termination
  by (relation "measure (\<lambda>(s, old, new). length s)") (auto simp: neq_Nil_conv)

section \<open>Truthiness, iteration and lookup\<close>

text \<open>\<^verbatim>\<open>bool(v)\<close>, as \<^verbatim>\<open>if v\<close> and \<^verbatim>\<open>v or w\<close> compute it.\<close>

fun truthy :: "json \<Rightarrow> bool" where
  "truthy JNull = False"
| "truthy (JBool b) = b"
| "truthy (JInt i) = (i \<noteq> 0)"
| "truthy (JFloat f) = (f \<noteq> Fin 0 \<and> f \<noteq> NZero)"
| "truthy (JStr s) = (s \<noteq> [])"
| "truthy (JArr xs) = (xs \<noteq> [])"
| "truthy (JObj kvs) = (kvs \<noteq> [])"

text \<open>
  \<^verbatim>\<open>for node in v\<close>: a list yields its elements, a string its characters, a dict its
  keys; \<^verbatim>\<open>None\<close>, booleans and numbers are not iterable.
\<close>

fun py_iter :: "json \<Rightarrow> exc + json list" where
  "py_iter (JArr xs) = Inr xs"
| "py_iter (JStr s) = Inr (map (\<lambda>c. JStr [c]) s)"
| "py_iter (JObj kvs) = Inr (map (\<lambda>kv. JStr (fst kv)) kvs)"
| "py_iter _ = Inl TypeError"

text \<open>\<^verbatim>\<open>d.get(k, default)\<close> on the items of a dict.\<close>

definition dict_get :: "(string \<times> json) list \<Rightarrow> string \<Rightarrow> json \<Rightarrow> json" where
  "dict_get kvs k dflt = (case map_of kvs k of None \<Rightarrow> dflt | Some v \<Rightarrow> v)"

text \<open>
  \<^verbatim>\<open>v.get(k, default)\<close> on any value: only a dict has the method, every other value
  raises \<^verbatim>\<open>AttributeError\<close>.
\<close>

fun py_get :: "json \<Rightarrow> string \<Rightarrow> json \<Rightarrow> exc + json" where
  "py_get (JObj kvs) k dflt = Inr (dict_get kvs k dflt)"
| "py_get _ k dflt = Inl AttributeError"

text \<open>
  \<^verbatim>\<open>k in v\<close> for a string \<open>k\<close>: membership in a list (a string equals only the
  same string), substring of a string, key of a dict; the other values raise
  \<^verbatim>\<open>TypeError\<close>.
\<close>

fun py_in :: "string \<Rightarrow> json \<Rightarrow> exc + bool" where
  "py_in k (JArr xs) = Inr (JStr k \<in> set xs)"
| "py_in k (JStr s) = Inr (str_contains s k)"
| "py_in k (JObj kvs) = Inr (k \<in> fst ` set kvs)"
| "py_in k _ = Inl TypeError"

section \<open>Extraction\<close>

text \<open>
  \<^verbatim>\<open>signals[k] = v\<close> on an insertion-ordered dict is \<open>AList.update\<close>: the value
  of an existing key is replaced in place, a new key goes to the end.
\<close>

definition collect :: "(string \<times> json) list \<Rightarrow> (string \<times> json) list \<Rightarrow> (string \<times> json) list" where
  "collect items signals =
     fold (\<lambda>kv s. if startswith (fst kv) ''disclose:'' then AList.update (fst kv) (snd kv) s else s)
       items signals"

definition collect_node :: "json \<Rightarrow> (string \<times> json) list \<Rightarrow> (string \<times> json) list" where
  "collect_node node signals = (case node of JObj items \<Rightarrow> collect items signals | _ \<Rightarrow> signals)"

definition extract_signals :: "json \<Rightarrow> exc + (string \<times> json) list" where
  "extract_signals raw =
     (case raw of
        JObj items \<Rightarrow>
          (case py_iter (dict_get items ''@graph'' (JArr [])) of
             Inl e \<Rightarrow> Inl e
           | Inr nodes \<Rightarrow> Inr (fold collect_node nodes (collect items [])))
      | _ \<Rightarrow> Inl AttributeError)"

section \<open>The fetch\<close>

text \<open>
  What \<^verbatim>\<open>urlopen\<close>, \<^verbatim>\<open>read\<close>, \<^verbatim>\<open>decode\<close> and \<^verbatim>\<open>json.loads\<close> do inside the
  \<^verbatim>\<open>try\<close> block for one URL: one of the four handled kinds of exception, or the
  parsed document. \<open>URLError\<close> carries \<^verbatim>\<open>str(e.reason)\<close>, \<open>OtherException\<close>
  carries \<^verbatim>\<open>str(e)\<close>.
\<close>

datatype response =
    HTTPError int
  | URLError string
  | JSONDecodeError
  | OtherException string
  | Parsed json

record DiscloseSignals =
  merchant_domain :: string
  raw :: json
  signals :: "(string \<times> json) list"
  verifier :: json
  verified_at :: json
  error :: "string option"

definition WELL_KNOWN_PATH :: string where
  "WELL_KNOWN_PATH = ''/.well-known/disclose.json''"

definition normalize_domain :: "string \<Rightarrow> string" where
  "normalize_domain d = removeprefix (removeprefix (rstrip d ''/'') ''https://'') ''http://''"

definition target_url :: "string \<Rightarrow> string" where
  "target_url d = ''https://'' @ normalize_domain d @ WELL_KNOWN_PATH"

text \<open>Decimal rendering of integers, as \<^verbatim>\<open>str\<close> and f-strings give it.\<close>

function str_digits :: "int \<Rightarrow> string" where
  "str_digits n =
     (if n < 10 then [''0123456789'' ! nat n]
      else str_digits (n div 10) @ [''0123456789'' ! nat (n mod 10)])"
  by pat_completeness auto
termination
  by (relation "measure nat") auto

declare str_digits.simps [simp del]

definition str_int :: "int \<Rightarrow> string" where
  "str_int i = (if i < 0 then CHR ''-'' # str_digits (- i) else str_digits i)"

text \<open>
  The dataclass constructor as the three \<^verbatim>\<open>except\<close> branches call it: the \<open>signals\<close>,
  \<open>verifier\<close> and \<open>verified_at\<close> fields take their defaults.
\<close>

definition failure :: "string \<Rightarrow> string \<Rightarrow> DiscloseSignals" where
  "failure domain msg =
     \<lparr>merchant_domain = domain, raw = JObj [], signals = [], verifier = JNull,
      verified_at = JNull, error = Some msg\<rparr>"

text \<open>
  The dict comprehension \<^verbatim>\<open>{k: v for k, v in all_signals.items() if k in signals}\<close>;
  the test \<^verbatim>\<open>k in signals\<close> runs once for each item and may raise.
\<close>

fun select_keys :: "(string \<times> json) list \<Rightarrow> json \<Rightarrow> exc + (string \<times> json) list" where
  "select_keys [] sel = Inr []"
| "select_keys (kv # kvs) sel =
     (case py_in (fst kv) sel of
        Inl e \<Rightarrow> Inl e
      | Inr b \<Rightarrow>
          (case select_keys kvs sel of
             Inl e \<Rightarrow> Inl e
           | Inr r \<Rightarrow> Inr (if b then kv # r else r)))"

text \<open>
  \<^verbatim>\<open>raw.get("disclose:verifier", {}).get("@id") or raw.get("disclose:verifier")\<close>
\<close>

definition verifier_of :: "json \<Rightarrow> exc + json" where
  "verifier_of doc =
     (case py_get doc ''disclose:verifier'' (JObj []) of
        Inl e \<Rightarrow> Inl e
      | Inr v \<Rightarrow>
          (case py_get v ''@id'' JNull of
             Inl e \<Rightarrow> Inl e
           | Inr a \<Rightarrow> if truthy a then Inr a else py_get doc ''disclose:verifier'' JNull))"

text \<open>
  The statements after the \<^verbatim>\<open>try\<close> block, in their order of evaluation: extraction,
  filtering, then the arguments of the constructor.
\<close>

definition build_result :: "string \<Rightarrow> json \<Rightarrow> json \<Rightarrow> exc + DiscloseSignals" where
  "build_result domain doc sel =
     (case extract_signals doc of
        Inl e \<Rightarrow> Inl e
      | Inr all_signals \<Rightarrow>
          (case (if truthy sel then select_keys all_signals sel else Inr all_signals) of
             Inl e \<Rightarrow> Inl e
           | Inr filtered \<Rightarrow>
               (case verifier_of doc of
                  Inl e \<Rightarrow> Inl e
                | Inr vf \<Rightarrow>
                    (case py_get doc ''disclose:verified_at'' JNull of
                       Inl e \<Rightarrow> Inl e
                     | Inr ts \<Rightarrow>
                         Inr \<lparr>merchant_domain = domain, raw = doc, signals = filtered,
                              verifier = vf, verified_at = ts, error = None\<rparr>))))"

text \<open>
  \<open>fetch_signals net merchant_domain sel\<close>: \<open>net\<close> gives the outcome of the request
  for each URL. The result is paired with the list of URLs requested. The first
  argument is any value: \<^verbatim>\<open>rstrip\<close> exists on strings only, and line 140 is outside
  the \<^verbatim>\<open>try\<close> block. \<open>sel\<close> is the \<^verbatim>\<open>signals\<close> argument, \<open>JNull\<close> when it is omitted.
\<close>

definition fetch_signals ::
  "(string \<Rightarrow> response) \<Rightarrow> json \<Rightarrow> json \<Rightarrow> (exc + DiscloseSignals) \<times> string list" where
  "fetch_signals net md sel =
     (case md of
        JStr d \<Rightarrow>
          (let domain = normalize_domain d; url = target_url d in
           (case net url of
              HTTPError code \<Rightarrow>
                Inr (failure domain
                  (''HTTP '' @ str_int code @ '': merchant may not support Disclose Framework''))
            | URLError reason \<Rightarrow> Inr (failure domain reason)
            | JSONDecodeError \<Rightarrow> Inr (failure domain ''Invalid JSON at endpoint'')
            | OtherException msg \<Rightarrow> Inr (failure domain msg)
            | Parsed doc \<Rightarrow> build_result domain doc sel,
            [url]))
      | _ \<Rightarrow> (Inl AttributeError, []))"

text \<open>An endpoint that answers every request with the same document.\<close>

definition serve :: "json \<Rightarrow> string \<Rightarrow> response" where
  "serve doc url = Parsed doc"

section \<open>Floating point\<close>

text \<open>
  Arithmetic on binary64: the exact result, rounded to the nearest double, ties to
  even, with gradual underflow and overflow to infinity.
\<close>

definition pow2 :: "int \<Rightarrow> rat" where
  "pow2 e = (if 0 \<le> e then 2 ^ nat e else 1 / 2 ^ nat (- e))"

definition round_half_even :: "rat \<Rightarrow> int" where
  "round_half_even x =
     (let f = \<lfloor>x\<rfloor>; r = x - of_int f in
      if r < 1 / 2 then f else if 1 / 2 < r then f + 1 else if even f then f else f + 1)"

text \<open>\<open>ilog2 a\<close> is the floor of the binary logarithm of \<open>a\<close>, for \<open>0 < a\<close>.\<close>

definition ilog2 :: "rat \<Rightarrow> int" where
  "ilog2 a = (if 1 \<le> a then bitlen \<lfloor>a\<rfloor> - 1 else - bitlen (\<lceil>1 / a\<rceil> - 1))"

definition signed_zero :: "bool \<Rightarrow> pyfloat" where
  "signed_zero neg = (if neg then NZero else Fin 0)"

definition signed_inf :: "bool \<Rightarrow> pyfloat" where
  "signed_inf neg = (if neg then NInf else PInf)"

definition round_double :: "rat \<Rightarrow> pyfloat" where
  "round_double v =
     (if v = 0 then Fin 0
      else
        (let a = \<bar>v\<bar>;
             q = pow2 (max (ilog2 a) (- 1022) - 52);
             m = of_int (round_half_even (a / q)) * q
         in if m = 0 then signed_zero (v < 0)
            else if 1024 \<le> ilog2 m then signed_inf (v < 0)
            else Fin (if v < 0 then - m else m)))"

text \<open>The double that a decimal literal of the source or of a document denotes.\<close>

definition float_literal :: "rat \<Rightarrow> pyfloat" where
  "float_literal q = round_double q"

fun fval :: "pyfloat \<Rightarrow> rat option" where
  "fval (Fin q) = Some q"
| "fval NZero = Some 0"
| "fval _ = None"

fun is_neg :: "pyfloat \<Rightarrow> bool" where
  "is_neg (Fin q) = (q < 0)"
| "is_neg NZero = True"
| "is_neg NInf = True"
| "is_neg _ = False"

fun fneg :: "pyfloat \<Rightarrow> pyfloat" where
  "fneg (Fin q) = (if q = 0 then NZero else Fin (- q))"
| "fneg NZero = Fin 0"
| "fneg PInf = NInf"
| "fneg NInf = PInf"
| "fneg NaN = NaN"

fun fabs :: "pyfloat \<Rightarrow> pyfloat" where
  "fabs (Fin q) = Fin \<bar>q\<bar>"
| "fabs NZero = Fin 0"
| "fabs PInf = PInf"
| "fabs NInf = PInf"
| "fabs NaN = NaN"

definition fadd :: "pyfloat \<Rightarrow> pyfloat \<Rightarrow> pyfloat" where
  "fadd a b =
     (if a = NaN \<or> b = NaN then NaN
      else
        (case (fval a, fval b) of
           (Some x, Some y) \<Rightarrow>
             if x + y = 0 then signed_zero (is_neg a \<and> is_neg b) else round_double (x + y)
         | (None, Some y) \<Rightarrow> a
         | (Some x, None) \<Rightarrow> b
         | (None, None) \<Rightarrow> if a = b then a else NaN))"

definition fsub :: "pyfloat \<Rightarrow> pyfloat \<Rightarrow> pyfloat" where
  "fsub a b = fadd a (fneg b)"

definition fmul :: "pyfloat \<Rightarrow> pyfloat \<Rightarrow> pyfloat" where
  "fmul a b =
     (if a = NaN \<or> b = NaN then NaN
      else
        (case (fval a, fval b) of
           (Some x, Some y) \<Rightarrow>
             if x * y = 0 then signed_zero (is_neg a \<noteq> is_neg b) else round_double (x * y)
         | (None, Some y) \<Rightarrow> if y = 0 then NaN else signed_inf (is_neg a \<noteq> is_neg b)
         | (Some x, None) \<Rightarrow> if x = 0 then NaN else signed_inf (is_neg a \<noteq> is_neg b)
         | (None, None) \<Rightarrow> signed_inf (is_neg a \<noteq> is_neg b)))"

text \<open>
  IEEE division, and Python's \<^verbatim>\<open>a / b\<close> on floats, which raises
  \<^verbatim>\<open>ZeroDivisionError\<close> when \<open>b\<close> is a zero.
\<close>

definition fquot :: "pyfloat \<Rightarrow> pyfloat \<Rightarrow> pyfloat" where
  "fquot a b =
     (if a = NaN \<or> b = NaN then NaN
      else
        (case (fval a, fval b) of
           (Some x, Some y) \<Rightarrow>
             if y = 0 then (if x = 0 then NaN else signed_inf (is_neg a \<noteq> is_neg b))
             else if x = 0 then signed_zero (is_neg a \<noteq> is_neg b)
             else round_double (x / y)
         | (None, Some y) \<Rightarrow> signed_inf (is_neg a \<noteq> is_neg b)
         | (Some x, None) \<Rightarrow> signed_zero (is_neg a \<noteq> is_neg b)
         | (None, None) \<Rightarrow> NaN))"

definition fdiv :: "pyfloat \<Rightarrow> pyfloat \<Rightarrow> exc + pyfloat" where
  "fdiv a b = (if fval b = Some 0 then Inl ZeroDivisionError else Inr (fquot a b))"

text \<open>\<^verbatim>\<open>a < b\<close> on floats; every comparison with a NaN is false.\<close>

fun fless :: "pyfloat \<Rightarrow> pyfloat \<Rightarrow> bool" where
  "fless NaN b = False"
| "fless a NaN = False"
| "fless a NInf = False"
| "fless NInf b = True"
| "fless PInf b = False"
| "fless a PInf = True"
| "fless (Fin x) (Fin y) = (x < y)"
| "fless (Fin x) NZero = (x < 0)"
| "fless NZero (Fin y) = (0 < y)"
| "fless NZero NZero = False"

section \<open>Conversions between numbers and strings\<close>

text \<open>
  Two functions of the Python runtime are parameters of the model: the parser behind
  \<^verbatim>\<open>float(s)\<close> for a string \<open>s\<close> (\<open>None\<close> where it raises \<^verbatim>\<open>ValueError\<close>), and
  \<^verbatim>\<open>str\<close> on lists and dicts.
\<close>

record pyrt =
  str_to_float :: "string \<Rightarrow> pyfloat option"
  container_str :: "json \<Rightarrow> string"

text \<open>
  \<^verbatim>\<open>float(i)\<close> for an integer: the nearest double, or \<^verbatim>\<open>OverflowError\<close> when
  that is out of range.
\<close>

definition finite_or_overflow :: "pyfloat \<Rightarrow> exc + pyfloat" where
  "finite_or_overflow f =
     (case f of PInf \<Rightarrow> Inl OverflowError | NInf \<Rightarrow> Inl OverflowError | _ \<Rightarrow> Inr f)"

definition int_to_float :: "int \<Rightarrow> exc + pyfloat" where
  "int_to_float i = finite_or_overflow (round_double (of_int i))"

fun py_float :: "pyrt \<Rightarrow> json \<Rightarrow> exc + pyfloat" where
  "py_float rt (JFloat f) = Inr f"
| "py_float rt (JInt i) = int_to_float i"
| "py_float rt (JBool b) = Inr (Fin (if b then 1 else 0))"
| "py_float rt (JStr s) =
     (case str_to_float rt s of None \<Rightarrow> Inl ValueError | Some f \<Rightarrow> Inr f)"
| "py_float rt _ = Inl TypeError"

text \<open>
  \<^verbatim>\<open>round(x, nd)\<close> on a float: the decimal with \<open>nd\<close> fractional digits nearest
  to the exact value of \<open>x\<close> (ties to even), read back as a double.
\<close>

fun py_round :: "nat \<Rightarrow> pyfloat \<Rightarrow> exc + pyfloat" where
  "py_round nd (Fin q) =
     (let n = round_half_even (\<bar>q\<bar> * 10 ^ nd) in
      if n = 0 then Inr (signed_zero (q < 0))
      else finite_or_overflow
             (round_double (of_int (if q < 0 then - n else n) / 10 ^ nd)))"
| "py_round nd f = Inr f"

text \<open>
  The format specification \<^verbatim>\<open>.kf\<close>: the exact value rounded to \<open>k\<close> fractional
  digits, ties to even.
\<close>

definition fixed_digits :: "nat \<Rightarrow> int \<Rightarrow> string" where
  "fixed_digits k n =
     (let ds = str_digits n;
          padded = replicate (Suc k - length ds) (CHR ''0'') @ ds;
          cut = length padded - k
      in take cut padded @ (if k = 0 then [] else CHR ''.'' # drop cut padded))"

fun format_fixed :: "nat \<Rightarrow> pyfloat \<Rightarrow> string" where
  "format_fixed k (Fin q) =
     (if q < 0 then ''-'' else []) @ fixed_digits k (round_half_even (\<bar>q\<bar> * 10 ^ k))"
| "format_fixed k NZero = ''-'' @ fixed_digits k 0"
| "format_fixed k PInf = ''inf''"
| "format_fixed k NInf = ''-inf''"
| "format_fixed k NaN = ''nan''"

text \<open>
  \<^verbatim>\<open>str(x)\<close> on a float: the shortest decimal that reads back as \<open>x\<close>. With
  \<open>10 ^ (k - 1) \<le> a < 10 ^ k\<close>, \<open>shortest\<close> tries 1, 2, ... significant digits, the
  nearer neighbour of \<open>a\<close> first; 17 digits always suffice.
\<close>

definition pow10 :: "int \<Rightarrow> rat" where
  "pow10 e = (if 0 \<le> e then 10 ^ nat e else 1 / 10 ^ nat (- e))"

definition decimal_exponent :: "rat \<Rightarrow> int" where
  "decimal_exponent a =
     (if 1 \<le> a then int (length (str_digits \<lfloor>a\<rfloor>))
      else 1 - int (length (str_digits (\<lceil>1 / a\<rceil> - 1))))"

fun shortest :: "nat \<Rightarrow> nat \<Rightarrow> rat \<Rightarrow> int \<Rightarrow> int \<times> int" where
  "shortest 0 n a k = (round_half_even (a / pow10 (k - 17)), k - 17)"
| "shortest (Suc fuel) n a k =
     (let e = k - int n;
          x = a / pow10 e;
          near = round_half_even x;
          far = (if of_int near \<le> x then near + 1 else near - 1)
      in if round_double (of_int near * pow10 e) = Fin a then (near, e)
         else if round_double (of_int far * pow10 e) = Fin a then (far, e)
         else shortest fuel (Suc n) a k)"

definition repr_layout :: "string \<Rightarrow> int \<Rightarrow> string" where
  "repr_layout ds decpt =
     (if decpt \<le> - 4 \<or> 16 < decpt then
        take 1 ds @ (if 1 < length ds then CHR ''.'' # drop 1 ds else [])
        @ CHR ''e'' # (if decpt - 1 < 0 then CHR ''-'' else CHR ''+'')
        # (let x = str_digits \<bar>decpt - 1\<bar> in replicate (2 - length x) (CHR ''0'') @ x)
      else if decpt \<le> 0 then ''0.'' @ replicate (nat (- decpt)) (CHR ''0'') @ ds
      else if int (length ds) \<le> decpt then
        ds @ replicate (nat decpt - length ds) (CHR ''0'') @ ''.0''
      else take (nat decpt) ds @ CHR ''.'' # drop (nat decpt) ds)"

fun float_repr :: "pyfloat \<Rightarrow> string" where
  "float_repr (Fin q) =
     (if q = 0 then ''0.0''
      else
        (let (d, e) = shortest 16 1 \<bar>q\<bar> (decimal_exponent \<bar>q\<bar>);
             ds = str_digits d;
             sig = rev (dropWhile (\<lambda>c. c = CHR ''0'') (rev ds))
         in (if q < 0 then ''-'' else []) @ repr_layout sig (int (length ds) + e)))"
| "float_repr NZero = ''-0.0''"
| "float_repr PInf = ''inf''"
| "float_repr NInf = ''-inf''"
| "float_repr NaN = ''nan''"

text \<open>\<^verbatim>\<open>str(v)\<close>, which is also what \<^verbatim>\<open>f"{v}"\<close> inserts.\<close>

fun py_str :: "pyrt \<Rightarrow> json \<Rightarrow> string" where
  "py_str rt JNull = ''None''"
| "py_str rt (JBool b) = (if b then ''True'' else ''False'')"
| "py_str rt (JInt i) = str_int i"
| "py_str rt (JFloat f) = float_repr f"
| "py_str rt (JStr s) = s"
| "py_str rt v = container_str rt v"

section \<open>Formatting and the summary\<close>

text \<open>The function \<^verbatim>\<open>_format_value\<close>.\<close>

definition format_value :: "pyrt \<Rightarrow> string \<Rightarrow> json \<Rightarrow> exc + string" where
  "format_value rt key v =
     (if key = ''return_rate'' then
        (case py_float rt v of
           Inl e \<Rightarrow> Inl e
         | Inr f \<Rightarrow> Inr (format_fixed 1 (fmul f (Fin 100)) @ ''%''))
      else if key = ''dispute_rate'' then
        (case py_float rt v of
           Inl e \<Rightarrow> Inl e
         | Inr f \<Rightarrow> Inr (format_fixed 2 (fmul f (Fin 100)) @ ''%''))
      else if key = ''review_rating'' then Inr (py_str rt v @ ''/5.0'')
      else if str_contains key ''days'' then Inr (py_str rt v @ '' days'')
      else Inr (py_str rt v))"

text \<open>\<^verbatim>\<open>sep.join(lines)\<close>\<close>

fun join :: "string \<Rightarrow> string list \<Rightarrow> string" where
  "join sep [] = []"
| "join sep [l] = l"
| "join sep (l # ls) = l @ sep @ join sep ls"

text \<open>The loop of \<open>summary\<close> over the items of \<open>signals\<close>.\<close>

fun signal_lines :: "pyrt \<Rightarrow> (string \<times> json) list \<Rightarrow> exc + string list" where
  "signal_lines rt [] = Inr []"
| "signal_lines rt (kv # kvs) =
     (let short_key = replace (fst kv) ''disclose:'' [] in
      case format_value rt short_key (snd kv) of
        Inl e \<Rightarrow> Inl e
      | Inr t \<Rightarrow>
          (case signal_lines rt kvs of
             Inl e \<Rightarrow> Inl e
           | Inr ls \<Rightarrow> Inr ((''  '' @ short_key @ '': '' @ t) # ls)))"

definition summary :: "pyrt \<Rightarrow> DiscloseSignals \<Rightarrow> exc + string" where
  "summary rt r =
     (if error r \<noteq> None \<and> error r \<noteq> Some [] then
        Inr (''[Disclose] Could not retrieve signals for '' @ merchant_domain r @ '': ''
             @ (case error r of Some e \<Rightarrow> e | None \<Rightarrow> []))
      else
        (case signal_lines rt (signals r) of
           Inl e \<Rightarrow> Inl e
         | Inr ls \<Rightarrow>
             Inr (join [CHR 0x0A]
               ([''[Disclose signals for '' @ merchant_domain r @ '']'']
                @ (if truthy (verifier r) then
                     [''  Verified by: '' @ py_str rt (verifier r) @ '' at ''
                      @ (if truthy (verified_at r) then py_str rt (verified_at r)
                         else ''unknown time'')]
                   else [])
                @ ls
                @ (if signals r = [] then [''  No signals published.''] else [])))))"

section \<open>The score\<close>

text \<open>The table \<open>weights\<close>, in the order of the dict literal: key, maximum, weight.\<close>

definition weights :: "(string \<times> pyfloat \<times> pyfloat) list" where
  "weights =
     [(''disclose:review_rating'', float_literal 5, float_literal (35 / 100)),
      (''disclose:return_rate'', float_literal 1, fneg (float_literal (25 / 100))),
      (''disclose:dispute_rate'', float_literal 1, fneg (float_literal (20 / 100))),
      (''disclose:fulfillment_days_p50'', float_literal 30, fneg (float_literal (20 / 100)))]"

text \<open>One iteration of the loop, on the pair of \<open>score\<close> and \<open>total_weight\<close>.\<close>

definition score_key ::
  "pyrt \<Rightarrow> (string \<times> json) list \<Rightarrow> string \<times> pyfloat \<times> pyfloat \<Rightarrow> pyfloat \<times> pyfloat
   \<Rightarrow> exc + pyfloat \<times> pyfloat" where
  "score_key rt sigs entry acc =
     (case entry of (key, max_val, w) \<Rightarrow>
      case acc of (sc, total_weight) \<Rightarrow>
        (case dict_get sigs key JNull of
           JNull \<Rightarrow> Inr (sc, total_weight)
         | val \<Rightarrow>
             (case py_float rt val of
                Inl e \<Rightarrow> Inl e
              | Inr x \<Rightarrow>
                  (case fdiv x max_val of
                     Inl e \<Rightarrow> Inl e
                   | Inr normalized \<Rightarrow>
                       Inr (if fless w (Fin 0)
                            then fadd sc (fmul (fabs w) (fsub (Fin 1) normalized))
                            else fadd sc (fmul w normalized),
                            fadd total_weight (fabs w))))))"

fun score_loop ::
  "pyrt \<Rightarrow> (string \<times> json) list \<Rightarrow> (string \<times> pyfloat \<times> pyfloat) list \<Rightarrow> pyfloat \<times> pyfloat
   \<Rightarrow> exc + pyfloat \<times> pyfloat" where
  "score_loop rt sigs [] acc = Inr acc"
| "score_loop rt sigs (entry # entries) acc =
     (case score_key rt sigs entry acc of
        Inl e \<Rightarrow> Inl e
      | Inr acc' \<Rightarrow> score_loop rt sigs entries acc')"

text \<open>\<open>score\<close>: \<open>Inr None\<close> is the return value \<^verbatim>\<open>None\<close>.\<close>

definition score :: "pyrt \<Rightarrow> DiscloseSignals \<Rightarrow> exc + pyfloat option" where
  "score rt r =
     (case score_loop rt (signals r) weights (Fin 0, Fin 0) of
        Inl e \<Rightarrow> Inl e
      | Inr (sc, total_weight) \<Rightarrow>
          if fless (Fin 0) total_weight then
            (case fdiv sc total_weight of
               Inl e \<Rightarrow> Inl e
             | Inr q \<Rightarrow>
                 (case py_round 3 q of Inl e \<Rightarrow> Inl e | Inr v \<Rightarrow> Inr (Some v)))
          else Inr None)"

section \<open>The tool-call handler\<close>

text \<open>
  \<open>tool_input\<close> is a dict, given by its items. The result is paired with the list
  of URLs requested.
\<close>

definition handle_tool_call ::
  "pyrt \<Rightarrow> (string \<Rightarrow> response) \<Rightarrow> string \<Rightarrow> (string \<times> json) list
   \<Rightarrow> (exc + string) \<times> string list" where
  "handle_tool_call rt net tool_name tool_input =
     (if tool_name \<noteq> ''fetch_merchant_trust_signals'' then
        (Inr (''Unknown tool: '' @ tool_name), [])
      else
        (case map_of tool_input ''merchant_domain'' of
           None \<Rightarrow> (Inl KeyError, [])
         | Some md \<Rightarrow>
             (case fetch_signals net md (dict_get tool_input ''signals'' JNull) of
                (Inl e, requests) \<Rightarrow> (Inl e, requests)
              | (Inr r, requests) \<Rightarrow> (summary rt r, requests))))"

section \<open>Values for concrete evaluations\<close>

text \<open>
  A runtime for concrete evaluations: its \<^verbatim>\<open>float\<close> rejects every string and its
  \<^verbatim>\<open>str\<close> prints every container as \<open>...\<close>.
\<close>

definition sample_rt :: pyrt where
  "sample_rt = \<lparr>str_to_float = (\<lambda>s. None), container_str = (\<lambda>v. ''...'')\<rparr>"

text \<open>An endpoint that fails every request with the same HTTP status.\<close>

definition refuse :: "int \<Rightarrow> string \<Rightarrow> response" where
  "refuse code url = HTTPError code"

section \<open>The wording of the specification\<close>

text \<open>
  The normalisation as the specification words it: the scheme prefix and the trailing
  slash are each stripped exactly once.
\<close>

definition strip_slash_once :: "string \<Rightarrow> string" where
  "strip_slash_once d = (if d \<noteq> [] \<and> last d = CHR ''/'' then butlast d else d)"

definition strip_scheme_once :: "string \<Rightarrow> string" where
  "strip_scheme_once d =
     (if startswith d ''https://'' then drop 8 d
      else if startswith d ''http://'' then drop 7 d
      else d)"

definition strip_each_once :: "string \<Rightarrow> string" where
  "strip_each_once d = strip_scheme_once (strip_slash_once d)"

text \<open>
  The \<^verbatim>\<open>disclose:\<close> keys of one value, as a map: those of its items when it is an
  object, none otherwise. The items are read last to first, so that a later item of a
  key would win as a later assignment does; the keys of a dict are distinct, and then
  the order does not matter.
\<close>

definition disclose_part :: "json \<Rightarrow> (string \<rightharpoonup> json)" where
  "disclose_part node =
     (case node of
        JObj items \<Rightarrow> map_of (rev items) |` {k. startswith k ''disclose:''}
      | _ \<Rightarrow> Map.empty)"

text \<open>The keys that \<open>score\<close> reads.\<close>

definition scored_keys :: "string list" where
  "scored_keys = map fst weights"

text \<open>
  The scoring model as the specification words it. The table gives, for each key, the
  maximum, the weight and whether lower is better. A key counts when it is present
  with a numeric value. Each such key contributes \<open>|weight| * (1 - normalize)\<close> when
  lower is better and \<open>weight * normalize\<close> otherwise, with \<open>normalize\<close> the raw
  value over the maximum; the score is the sum of the contributions over the sum of
  the \<open>|weight|\<close>, rounded to three decimal places.
\<close>

definition score_table :: "(string \<times> pyfloat \<times> pyfloat \<times> bool) list" where
  "score_table =
     [(''disclose:review_rating'', float_literal 5, float_literal (35 / 100), False),
      (''disclose:return_rate'', float_literal 1, float_literal (25 / 100), True),
      (''disclose:dispute_rate'', float_literal 1, float_literal (20 / 100), True),
      (''disclose:fulfillment_days_p50'', float_literal 30, float_literal (20 / 100), True)]"

definition numeric :: "json \<Rightarrow> pyfloat option" where
  "numeric v =
     (case v of
        JFloat f \<Rightarrow> Some f
      | JInt i \<Rightarrow> (case int_to_float i of Inl e \<Rightarrow> None | Inr f \<Rightarrow> Some f)
      | _ \<Rightarrow> None)"

definition row_of ::
  "(string \<times> json) list \<Rightarrow> string \<times> pyfloat \<times> pyfloat \<times> bool
   \<Rightarrow> (pyfloat \<times> pyfloat \<times> pyfloat \<times> bool) option" where
  "row_of sigs row =
     (case row of (k, mx, w, lower) \<Rightarrow>
        (case map_of sigs k of
           None \<Rightarrow> None
         | Some v \<Rightarrow> map_option (\<lambda>x. (x, mx, w, lower)) (numeric v)))"

fun present_rows ::
  "(string \<times> json) list \<Rightarrow> (string \<times> pyfloat \<times> pyfloat \<times> bool) list
   \<Rightarrow> (pyfloat \<times> pyfloat \<times> pyfloat \<times> bool) list" where
  "present_rows sigs [] = []"
| "present_rows sigs (row # rows) =
     (case row_of sigs row of
        None \<Rightarrow> present_rows sigs rows
      | Some p \<Rightarrow> p # present_rows sigs rows)"

definition contribution :: "pyfloat \<times> pyfloat \<times> pyfloat \<times> bool \<Rightarrow> pyfloat" where
  "contribution p =
     (case p of (x, mx, w, lower) \<Rightarrow>
        (let normalize = fquot x mx in
         if lower then fmul (fabs w) (fsub (Fin 1) normalize) else fmul w normalize))"

definition abs_weight :: "pyfloat \<times> pyfloat \<times> pyfloat \<times> bool \<Rightarrow> pyfloat" where
  "abs_weight p = (case p of (x, mx, w, lower) \<Rightarrow> fabs w)"

definition weighted_average :: "(string \<times> json) list \<Rightarrow> exc + pyfloat" where
  "weighted_average sigs =
     (let rows = present_rows sigs score_table in
      py_round 3
        (fquot (foldl fadd (Fin 0) (map contribution rows))
               (foldl fadd (Fin 0) (map abs_weight rows))))"

text \<open>At least one scored key is present, and every scored key present is numeric.\<close>

definition scorable :: "(string \<times> json) list \<Rightarrow> bool" where
  "scorable sigs =
     ((\<exists>k \<in> set scored_keys. map_of sigs k \<noteq> None)
      \<and> (\<forall>k \<in> set scored_keys. \<forall>v. map_of sigs k = Some v \<longrightarrow> numeric v \<noteq> None))"

text \<open>The code keeps the direction in the sign of the weight.\<close>

definition signed :: "string \<times> pyfloat \<times> pyfloat \<times> bool \<Rightarrow> string \<times> pyfloat \<times> pyfloat" where
  "signed row = (case row of (k, mx, w, lower) \<Rightarrow> (k, mx, if lower then fneg w else w))"

definition good_row :: "string \<times> pyfloat \<times> pyfloat \<times> bool \<Rightarrow> bool" where
  "good_row row =
     (case row of (k, mx, w, lower) \<Rightarrow>
        fval mx \<noteq> Some 0
        \<and> fless (if lower then fneg w else w) (Fin 0) = lower
        \<and> fabs (if lower then fneg w else w) = fabs w)"

definition row_weight :: "string \<times> pyfloat \<times> pyfloat \<times> bool \<Rightarrow> pyfloat" where
  "row_weight row = (case row of (k, mx, w, lower) \<Rightarrow> fabs w)"

section \<open>Properties of the fetch\<close>

lemma fetch_signals_failure_cases:
  assumes "fst (fetch_signals net md sel) = Inr r" and "error r \<noteq> None"
  shows "signals r = []"
proof (cases md)
  case (JStr d)
  show ?thesis
  proof (cases "net (target_url d)")
    case (Parsed doc)
    with JStr assms(1) have "build_result (normalize_domain d) doc sel = Inr r"
      by (simp add: fetch_signals_def)
    then have "error r = None"
      by (auto simp: build_result_def split: sum.splits)
    with assms(2) show ?thesis by simp
  qed (use JStr assms(1) in \<open>auto simp: fetch_signals_def failure_def\<close>)
qed (use assms(1) in \<open>simp_all add: fetch_signals_def\<close>)

text \<open>
  C1. The claim: whatever JSON document the endpoint returns, \<open>fetch_signals\<close>
  returns a result and never raises. The code evaluated at three documents shows the
  opposite. The \<^verbatim>\<open>try\<close> block ends before the document is inspected, so nothing
  catches what \<open>_extract_signals\<close> and the \<open>verifier\<close> expression raise: a document
  that is a JSON array has no \<^verbatim>\<open>items\<close> method, a string-valued
  \<^verbatim>\<open>disclose:verifier\<close> has no \<^verbatim>\<open>get\<close> method, and a null \<^verbatim>\<open>@graph\<close> is not
  iterable.
\<close>

theorem fetch_signals_raises:
  "fst (fetch_signals (serve (JArr [])) (JStr ''acme.com'') JNull) = Inl AttributeError
   \<and> fst (fetch_signals (serve (JObj [(''disclose:verifier'', JStr ''TrustCo'')]))
         (JStr ''acme.com'') JNull) = Inl AttributeError
   \<and> fst (fetch_signals (serve (JObj [(''@graph'', JNull)])) (JStr ''acme.com'') JNull)
       = Inl TypeError"
  by (simp add: fetch_signals_def serve_def build_result_def extract_signals_def
      verifier_of_def dict_get_def collect_def startswith_def)

text \<open>
  C7. Every result that \<open>fetch_signals\<close> constructs uses \<open>error\<close> and \<open>signals\<close> as
  exclusive channels: if \<open>error\<close> is populated then \<open>signals\<close> is empty, and a
  non-empty \<open>signals\<close> occurs only with \<open>error\<close> absent.
\<close>

theorem error_and_signals_exclusive:
  assumes "fst (fetch_signals net md sel) = Inr r"
  shows "(error r \<noteq> None \<longrightarrow> signals r = []) \<and> (signals r \<noteq> [] \<longrightarrow> error r = None)"
  using fetch_signals_failure_cases [OF assms] by blast

theorem error_and_signals_exclusive_witness:
  "fst (fetch_signals (refuse 404) (JStr ''acme.com'') JNull)
     = Inr (failure ''acme.com'' ''HTTP 404: merchant may not support Disclose Framework'')
   \<and> error (failure ''acme.com'' ''HTTP 404: merchant may not support Disclose Framework'')
       \<noteq> None
   \<and> signals (failure ''acme.com'' ''HTTP 404: merchant may not support Disclose Framework'')
       = []"
proof -
  have run: "fst (fetch_signals (refuse 404) (JStr ''acme.com'') JNull)
     = Inr (failure ''acme.com'' ''HTTP 404: merchant may not support Disclose Framework'')"
    by (simp add: fetch_signals_def refuse_def normalize_domain_def rstrip_def
        removeprefix_def startswith_def str_int_def str_digits.simps)
  from error_and_signals_exclusive [OF run] run show ?thesis
    by (simp add: failure_def)
qed

section \<open>Normalisation of the domain\<close>

lemma rstrip_slashes:
  assumes "h \<noteq> []" and "last h \<noteq> CHR ''/''"
  shows "rstrip (p @ h @ replicate n (CHR ''/'')) ''/'' = p @ h"
proof -
  have "dropWhile (\<lambda>c. c = CHR ''/'') (replicate n (CHR ''/'') @ rev h @ rev p) = rev h @ rev p"
  proof (induction n)
    case 0
    from assms obtain c cs where "rev h = c # cs" and "c \<noteq> CHR ''/''"
      by (cases h rule: rev_cases) auto
    then show ?case by simp
  qed simp
  then show ?thesis
    by (simp add: rstrip_def)
qed

text \<open>
  C2, as the claim states it, fails: \<^verbatim>\<open>rstrip("/")\<close> removes the whole run of
  trailing slashes, not one of them.
\<close>

theorem repeated_slashes_counterexample:
  "normalize_domain ''acme.com//'' = ''acme.com''
   \<and> strip_each_once ''acme.com//'' = ''acme.com/''
   \<and> normalize_domain ''acme.com//'' \<noteq> strip_each_once ''acme.com//''"
  by (simp add: normalize_domain_def rstrip_def removeprefix_def startswith_def
      strip_each_once_def strip_scheme_once_def strip_slash_once_def)

text \<open>
  C2, amended. For an input made of an optional scheme prefix (\<^verbatim>\<open>http://\<close> or
  \<^verbatim>\<open>https://\<close>), a non-empty host that does not end in a slash and does not itself
  begin with a scheme prefix, and any number of trailing slashes, the normalized domain
  is exactly the host: the scheme prefix is removed once and every trailing slash is
  removed. The URL requested is \<^verbatim>\<open>https://host/.well-known/disclose.json\<close>.
\<close>

theorem normalize_domain_host:
  assumes "p = [] \<or> p = ''http://'' \<or> p = ''https://''"
    and "h \<noteq> []" and "last h \<noteq> CHR ''/''"
    and "\<not> startswith h ''http://''" and "\<not> startswith h ''https://''"
  shows "normalize_domain (p @ h @ replicate n (CHR ''/'')) = h
    \<and> target_url (p @ h @ replicate n (CHR ''/'')) = ''https://'' @ h @ ''/.well-known/disclose.json''"
proof -
  have "removeprefix (removeprefix (p @ h) ''https://'') ''http://'' = h"
    using assms(1,4,5) by (auto simp: removeprefix_def startswith_def)
  then have "normalize_domain (p @ h @ replicate n (CHR ''/'')) = h"
    by (simp add: normalize_domain_def rstrip_slashes [OF assms(2,3)])
  then show ?thesis
    by (simp add: target_url_def WELL_KNOWN_PATH_def)
qed

theorem normalize_domain_host_witness:
  "normalize_domain ''https://acme.com//'' = ''acme.com''
   \<and> target_url ''https://acme.com//'' = ''https://acme.com/.well-known/disclose.json''"
  using normalize_domain_host [of "''https://''" "''acme.com''" 2]
  by (simp add: startswith_def numeral_2_eq_2)

section \<open>Properties of the filter\<close>

lemma select_keys_strings:
  "select_keys kvs (JArr (map JStr ks)) = Inr (filter (\<lambda>kv. fst kv \<in> set ks) kvs)"
  by (induction kvs) auto

lemma build_result_filtered:
  assumes "ks \<noteq> []"
  shows "build_result domain doc (JArr (map JStr ks))
     = map_sum id (\<lambda>r. r\<lparr>signals := filter (\<lambda>kv. fst kv \<in> set ks) (signals r)\<rparr>)
         (build_result domain doc JNull)"
  using assms
  by (simp add: build_result_def select_keys_strings split: sum.splits)

lemma fetch_signals_filtered:
  assumes "ks \<noteq> []"
  shows "fst (fetch_signals net md (JArr (map JStr ks)))
     = map_sum id (\<lambda>r. r\<lparr>signals := filter (\<lambda>kv. fst kv \<in> set ks) (signals r)\<rparr>)
         (fst (fetch_signals net md JNull))"
  by (cases md)
     (simp_all add: fetch_signals_def Let_def build_result_filtered [OF assms] failure_def
        split: response.splits)

lemma fetch_signals_unfiltered:
  assumes "fst (fetch_signals net (JStr d) JNull) = Inr r" and "net (target_url d) = Parsed doc"
  shows "extract_signals doc = Inr (signals r)"
  using assms
  by (auto simp: fetch_signals_def build_result_def split: sum.splits)

text \<open>
  C4, as the claim states it, fails for the empty collection: an empty list is falsy,
  so no filter is applied and the result holds a key that was not requested.
\<close>

theorem empty_request_counterexample:
  "fst (fetch_signals (serve (JObj [(''disclose:return_rate'', JInt 0)])) (JStr ''acme.com'')
         (JArr (map JStr [])))
     = Inr \<lparr>merchant_domain = ''acme.com'', raw = JObj [(''disclose:return_rate'', JInt 0)],
            signals = [(''disclose:return_rate'', JInt 0)], verifier = JNull,
            verified_at = JNull, error = None\<rparr>
   \<and> \<not> fst ` set [(''disclose:return_rate'', JInt 0)] \<subseteq> set ([] :: string list)"
  by (simp add: fetch_signals_def serve_def build_result_def extract_signals_def
      verifier_of_def dict_get_def collect_def startswith_def normalize_domain_def
      rstrip_def removeprefix_def)

text \<open>
  C4, amended. For every non-empty collection of requested keys: a result returned
  with the filter comes from a result returned without it, with the same \<open>error\<close>;
  its signals are among the signals of that result (which are the extracted mapping
  when a document was fetched) and their keys are among the requested keys, so a
  requested key that was not extracted is absent; and the filtered call raises only
  an exception that the unfiltered call raises too.
\<close>

theorem requested_keys_filter:
  assumes "ks \<noteq> []"
  shows "(\<forall>r. fst (fetch_signals net md (JArr (map JStr ks))) = Inr r \<longrightarrow>
            (\<exists>r0. fst (fetch_signals net md JNull) = Inr r0 \<and> error r = error r0
               \<and> (\<forall>d doc. md = JStr d \<and> net (target_url d) = Parsed doc \<longrightarrow>
                     extract_signals doc = Inr (signals r0))
               \<and> set (signals r) \<subseteq> set (signals r0)
               \<and> fst ` set (signals r) \<subseteq> set ks
               \<and> (\<forall>k. k \<in> set ks \<and> k \<notin> fst ` set (signals r0) \<longrightarrow> k \<notin> fst ` set (signals r))))
    \<and> (\<forall>e. fst (fetch_signals net md (JArr (map JStr ks))) = Inl e \<longrightarrow>
            fst (fetch_signals net md JNull) = Inl e)"
proof -
  let ?f = "\<lambda>r. r\<lparr>signals := filter (\<lambda>kv. fst kv \<in> set ks) (signals r)\<rparr>"
  have eq: "fst (fetch_signals net md (JArr (map JStr ks)))
     = map_sum id ?f (fst (fetch_signals net md JNull))"
    by (rule fetch_signals_filtered [OF assms])
  show ?thesis
  proof (cases "fst (fetch_signals net md JNull)")
    case (Inl e)
    with eq show ?thesis by simp
  next
    case (Inr r0)
    with eq have "fst (fetch_signals net md (JArr (map JStr ks))) = Inr (?f r0)" by simp
    moreover have "extract_signals doc = Inr (signals r0)"
      if "md = JStr d" and "net (target_url d) = Parsed doc" for d doc
      using fetch_signals_unfiltered [of net d r0 doc] Inr that by simp
    ultimately show ?thesis using Inr by auto
  qed
qed

theorem requested_keys_filter_witness:
  "fst (fetch_signals (serve (JObj [(''disclose:return_rate'', JInt 0)])) (JStr ''acme.com'')
         (JArr (map JStr [''disclose:review_rating''])))
     = Inr \<lparr>merchant_domain = ''acme.com'', raw = JObj [(''disclose:return_rate'', JInt 0)],
            signals = [], verifier = JNull, verified_at = JNull, error = None\<rparr>
   \<and> fst (fetch_signals (serve (JObj [(''disclose:return_rate'', JInt 0)])) (JStr ''acme.com'')
         JNull)
     = Inr \<lparr>merchant_domain = ''acme.com'', raw = JObj [(''disclose:return_rate'', JInt 0)],
            signals = [(''disclose:return_rate'', JInt 0)], verifier = JNull,
            verified_at = JNull, error = None\<rparr>"
  using requested_keys_filter [of "[''disclose:review_rating'']"
      "serve (JObj [(''disclose:return_rate'', JInt 0)])" "JStr ''acme.com''"]
  by (simp add: fetch_signals_def serve_def build_result_def extract_signals_def
      verifier_of_def dict_get_def collect_def startswith_def normalize_domain_def
      rstrip_def removeprefix_def)

text \<open>
  C9. An empty collection of requested keys is treated as no filter at all: the two
  calls have the same outcome, and when a document was fetched and a result returned,
  its signals are all the extracted signals.
\<close>

theorem empty_filter_is_no_filter:
  "fetch_signals net md (JArr []) = fetch_signals net md JNull
   \<and> (\<forall>d doc r. md = JStr d \<and> net (target_url d) = Parsed doc
         \<and> fst (fetch_signals net md (JArr [])) = Inr r
       \<longrightarrow> extract_signals doc = Inr (signals r))"
proof -
  have "build_result domain doc (JArr []) = build_result domain doc JNull" for domain doc
    by (simp add: build_result_def split: sum.splits)
  then have same: "fetch_signals net md (JArr []) = fetch_signals net md JNull"
    by (simp add: fetch_signals_def Let_def split: json.splits response.splits)
  then show ?thesis
    using fetch_signals_unfiltered by auto
qed

theorem empty_filter_is_no_filter_witness:
  "fetch_signals (serve (JObj [(''disclose:return_rate'', JInt 0)])) (JStr ''acme.com'') (JArr [])
     = fetch_signals (serve (JObj [(''disclose:return_rate'', JInt 0)])) (JStr ''acme.com'') JNull
   \<and> extract_signals (JObj [(''disclose:return_rate'', JInt 0)])
       = Inr [(''disclose:return_rate'', JInt 0)]
   \<and> map_sum id signals
       (fst (fetch_signals (serve (JObj [(''disclose:return_rate'', JInt 0)]))
          (JStr ''acme.com'') (JArr [])))
       = Inr [(''disclose:return_rate'', JInt 0)]"
  using empty_filter_is_no_filter [of "serve (JObj [(''disclose:return_rate'', JInt 0)])"
      "JStr ''acme.com''"]
  by (simp add: fetch_signals_def serve_def build_result_def extract_signals_def
      verifier_of_def dict_get_def collect_def startswith_def normalize_domain_def
      rstrip_def removeprefix_def)

section \<open>Properties of the extraction\<close>

lemma map_of_rev_distinct: "distinct (map fst kvs) \<Longrightarrow> map_of (rev kvs) = map_of kvs"
proof (induction kvs)
  case (Cons kv kvs)
  then have "fst kv \<notin> dom (map_of kvs)"
    by (simp add: dom_map_of_conv_image_fst)
  then have "map_of kvs (fst kv) = None" by blast
  with Cons show ?case
    by (auto simp: fun_eq_iff map_add_def split: option.splits)
qed simp

lemma map_of_collect: "map_of (collect items s) = map_of s ++ disclose_part (JObj items)"
proof (induction items arbitrary: s)
  case Nil
  show ?case by (simp add: collect_def disclose_part_def)
next
  case (Cons kv items)
  have step: "collect (kv # items) s
      = collect items
          (if startswith (fst kv) ''disclose:'' then AList.update (fst kv) (snd kv) s else s)"
    by (simp add: collect_def)
  show ?case
    unfolding step Cons.IH
    by (auto simp: fun_eq_iff disclose_part_def map_add_def restrict_map_def update_conv'
        split: option.splits)
qed

lemma map_of_collect_node: "map_of (collect_node node s) = map_of s ++ disclose_part node"
  by (cases node) (simp_all add: collect_node_def map_of_collect, simp_all add: disclose_part_def)

lemma map_of_fold_collect_node:
  "map_of (fold collect_node nodes s) = foldl (++) (map_of s) (map disclose_part nodes)"
  by (induction nodes arbitrary: s) (simp_all add: map_of_collect_node)

lemma distinct_collect: "distinct (map fst s) \<Longrightarrow> distinct (map fst (collect items s))"
  unfolding collect_def
  by (induction items arbitrary: s) (simp_all add: distinct_update)

lemma distinct_fold_collect_node:
  "distinct (map fst s) \<Longrightarrow> distinct (map fst (fold collect_node nodes s))"
proof (induction nodes arbitrary: s)
  case (Cons node nodes)
  have "distinct (map fst (collect_node node s))"
    using Cons.prems by (cases node) (simp_all add: collect_node_def distinct_collect)
  then show ?case by (simp add: Cons.IH)
qed simp

text \<open>
  When the \<^verbatim>\<open>@graph\<close> field is absent or can be iterated, extraction returns the
  \<^verbatim>\<open>disclose:\<close> keys of the root overridden, node after node, by those of the
  object elements of \<^verbatim>\<open>@graph\<close>.
\<close>

lemma extract_signals_merge:
  assumes "py_iter (dict_get items ''@graph'' (JArr [])) = Inr nodes"
  shows "\<exists>sigs. extract_signals (JObj items) = Inr sigs \<and> distinct (map fst sigs)
    \<and> map_of sigs = foldl (++) (disclose_part (JObj items)) (map disclose_part nodes)"
proof -
  have "distinct (map fst (fold collect_node nodes (collect items [])))"
    by (rule distinct_fold_collect_node) (simp add: distinct_collect)
  moreover have "map_of (collect items []) = disclose_part (JObj items)"
    by (simp add: map_of_collect)
  ultimately show ?thesis
    using assms by (simp add: extract_signals_def map_of_fold_collect_node)
qed

lemma foldl_map_add_absent:
  "\<forall>m \<in> set ms. m k = None \<Longrightarrow> foldl (++) m0 ms k = m0 k"
  by (induction ms arbitrary: m0) (simp_all add: map_add_def)

lemma graph_overrides_root:
  assumes "dict_get items ''@graph'' (JArr []) = JArr (ns @ JObj nitems # ms)"
    and "startswith k ''disclose:''" and "map_of (rev nitems) k = Some v"
    and "\<forall>m \<in> set ms. disclose_part m k = None"
  shows "\<exists>sigs. extract_signals (JObj items) = Inr sigs \<and> map_of sigs k = Some v"
proof -
  from assms(1) have "py_iter (dict_get items ''@graph'' (JArr [])) = Inr (ns @ JObj nitems # ms)"
    by simp
  from extract_signals_merge [OF this] obtain sigs
    where ex: "extract_signals (JObj items) = Inr sigs"
      and m: "map_of sigs
        = foldl (++) (disclose_part (JObj items)) (map disclose_part (ns @ JObj nitems # ms))"
    by blast
  have "disclose_part (JObj nitems) k = Some v"
    using assms(2,3) by (simp add: disclose_part_def)
  then have "map_of sigs k = Some v"
    unfolding m using assms(4) by (simp add: foldl_map_add_absent)
  with ex show ?thesis by blast
qed

text \<open>
  C3. The claim: for every JSON-object document, extraction collects the root-level
  \<^verbatim>\<open>disclose:\<close> keys and those of the object elements of an array-valued
  \<^verbatim>\<open>@graph\<close>. The merge is as claimed wherever extraction returns
  (\<open>extract_signals_merge\<close>, \<open>graph_overrides_root\<close>), but the code iterates
  \<^verbatim>\<open>@graph\<close> without testing that it is an array: on an object document whose
  \<^verbatim>\<open>@graph\<close> is a number, extraction raises and collects nothing.
\<close>

theorem extract_signals_raises_on_graph:
  "extract_signals (JObj [(''disclose:return_rate'', JInt 0), (''@graph'', JInt 5)])
     = Inl TypeError"
  by (simp add: extract_signals_def dict_get_def)

section \<open>Properties of formatting\<close>

lemma format_value_review_rating:
  "format_value rt ''review_rating'' v = Inr (py_str rt v @ ''/5.0'')"
  by (simp add: format_value_def)

lemma format_value_return_rate:
  "format_value rt ''return_rate'' (JFloat f) = Inr (format_fixed 1 (fmul f (Fin 100)) @ ''%'')"
  by (simp add: format_value_def)

lemma format_value_dispute_rate:
  "format_value rt ''dispute_rate'' (JFloat f) = Inr (format_fixed 2 (fmul f (Fin 100)) @ ''%'')"
  by (simp add: format_value_def)

lemma repr_4_5: "float_repr (float_literal (45 / 10)) = ''4.5''"
  by code_simp

lemma percent_15_3: "format_fixed 1 (fmul (float_literal (153 / 1000)) (Fin 100)) = ''15.3''"
  by code_simp

lemma percent_1_69: "format_fixed 2 (fmul (float_literal (169 / 10000)) (Fin 100)) = ''1.69''"
  by code_simp

text \<open>
  C8. The key \<open>review_rating\<close> with the value 4.5 renders as \<open>4.5/5.0\<close>, the key
  \<open>return_rate\<close> with 0.153 as \<open>15.3%\<close>, the key \<open>dispute_rate\<close> with 0.0169 as
  \<open>1.69%\<close>. The values are the doubles that the literals denote; the product
  \<open>0.153 * 100\<close> is the double below 15.3, and still prints as 15.3.
\<close>

theorem format_value_examples:
  "format_value rt ''review_rating'' (JFloat (float_literal (45 / 10))) = Inr ''4.5/5.0''
   \<and> format_value rt ''return_rate'' (JFloat (float_literal (153 / 1000))) = Inr ''15.3%''
   \<and> format_value rt ''dispute_rate'' (JFloat (float_literal (169 / 10000))) = Inr ''1.69%''"
  unfolding format_value_review_rating format_value_return_rate format_value_dispute_rate
    py_str.simps repr_4_5 percent_15_3 percent_1_69
  by simp

section \<open>Properties of the handler\<close>

text \<open>
  For a tool name other than \<open>fetch_merchant_trust_signals\<close> the handler returns
  \<open>Unknown tool: \<close> followed by the name, whatever the input; it requests no URL
  and does not raise.
\<close>

lemma handle_tool_call_unknown:
  "tool_name \<noteq> ''fetch_merchant_trust_signals'' \<Longrightarrow>
     handle_tool_call rt net tool_name tool_input = (Inr (''Unknown tool: '' @ tool_name), [])"
  by (simp add: handle_tool_call_def)

text \<open>
  C10. The claim: for an unknown tool name the handler returns \<open>Unknown tool: \<close>
  and the name without a fetch and without raising, and for the recognized name it
  returns exactly the summary rendering of the fetch result. The first half holds
  (\<open>handle_tool_call_unknown\<close>). The second does not: when the endpoint publishes
  \<^verbatim>\<open>{"disclose:return_rate": null}\<close> the fetch succeeds, with that signal and no
  error, and \<open>summary\<close> then raises \<^verbatim>\<open>TypeError\<close> from \<^verbatim>\<open>float(None)\<close> in
  \<^verbatim>\<open>_format_value\<close>; the handler returns no text. A string-valued
  \<^verbatim>\<open>disclose:verifier\<close> makes the fetch itself raise, and the handler with it.
\<close>

theorem handle_tool_call_raises:
  "fst (fetch_signals (serve (JObj [(''disclose:return_rate'', JNull)])) (JStr ''acme.com'') JNull)
     = Inr \<lparr>merchant_domain = ''acme.com'', raw = JObj [(''disclose:return_rate'', JNull)],
            signals = [(''disclose:return_rate'', JNull)], verifier = JNull,
            verified_at = JNull, error = None\<rparr>
   \<and> handle_tool_call rt (serve (JObj [(''disclose:return_rate'', JNull)]))
       ''fetch_merchant_trust_signals'' [(''merchant_domain'', JStr ''acme.com'')]
     = (Inl TypeError, [''https://acme.com/.well-known/disclose.json''])
   \<and> handle_tool_call rt (serve (JObj [(''disclose:verifier'', JStr ''TrustCo'')]))
       ''fetch_merchant_trust_signals'' [(''merchant_domain'', JStr ''acme.com'')]
     = (Inl AttributeError, [''https://acme.com/.well-known/disclose.json''])"
  by (simp add: handle_tool_call_def fetch_signals_def serve_def build_result_def
      extract_signals_def verifier_of_def dict_get_def collect_def startswith_def
      normalize_domain_def rstrip_def removeprefix_def target_url_def WELL_KNOWN_PATH_def
      summary_def format_value_def)

section \<open>Properties of the score\<close>

lemma scored_keys:
  "scored_keys = [''disclose:review_rating'', ''disclose:return_rate'',
     ''disclose:dispute_rate'', ''disclose:fulfillment_days_p50'']"
  by (simp add: scored_keys_def weights_def)

lemma score_key_absent:
  assumes "map_of sigs (fst entry) = None"
  shows "score_key rt sigs entry acc = Inr acc"
  using assms by (cases entry, cases acc) (simp add: score_key_def dict_get_def)

lemma score_loop_absent:
  assumes "set (map fst entries) \<inter> fst ` set sigs = {}"
  shows "score_loop rt sigs entries acc = Inr acc"
  using assms
proof (induction entries)
  case (Cons entry entries)
  then have "fst entry \<notin> fst ` set sigs" by auto
  then have "map_of sigs (fst entry) = None"
    by (simp add: map_of_eq_None_iff)
  with Cons show ?case
    by (simp add: score_key_absent)
qed simp

text \<open>
  C6. When the signals hold none of the four scored keys, \<open>score\<close> returns \<^verbatim>\<open>None\<close>
  and not the number 0.0; so it does for every result of a fetch that reports an
  error.
\<close>

theorem score_insufficient_data:
  "(set scored_keys \<inter> fst ` set (signals r) = {} \<longrightarrow>
      score rt r = Inr None \<and> score rt r \<noteq> Inr (Some (Fin 0)))
   \<and> (\<forall>net md sel. fst (fetch_signals net md sel) = Inr r \<and> error r \<noteq> None \<longrightarrow>
         score rt r = Inr None)"
proof -
  have none: "score rt r = Inr None" if "set scored_keys \<inter> fst ` set (signals r) = {}"
    using that by (simp add: score_def scored_keys_def score_loop_absent)
  moreover have "score rt r = Inr None"
    if "fst (fetch_signals net md sel) = Inr r" and "error r \<noteq> None" for net md sel
  proof -
    from that have "signals r = []" by (rule fetch_signals_failure_cases)
    then show ?thesis by (simp add: none)
  qed
  ultimately show ?thesis by auto
qed

theorem score_insufficient_data_witness:
  "score sample_rt (failure ''acme.com'' ''HTTP 404: merchant may not support Disclose Framework'')
     = Inr None
   \<and> score sample_rt \<lparr>merchant_domain = ''acme.com'', raw = JObj [(''disclose:shipping'', JStr ''free'')],
        signals = [(''disclose:shipping'', JStr ''free'')], verifier = JNull,
        verified_at = JNull, error = None\<rparr> = Inr None"
proof -
  have run: "fst (fetch_signals (refuse 404) (JStr ''acme.com'') JNull)
     = Inr (failure ''acme.com'' ''HTTP 404: merchant may not support Disclose Framework'')"
    by (simp add: fetch_signals_def refuse_def normalize_domain_def rstrip_def
        removeprefix_def startswith_def str_int_def str_digits.simps)
  have err: "error (failure ''acme.com'' ''HTTP 404: merchant may not support Disclose Framework'')
     \<noteq> None"
    by (simp add: failure_def)
  from score_insufficient_data
         [of "failure ''acme.com'' ''HTTP 404: merchant may not support Disclose Framework''" sample_rt]
       run err
  have first: "score sample_rt (failure ''acme.com''
      ''HTTP 404: merchant may not support Disclose Framework'') = Inr None"
    by blast
  from score_insufficient_data
         [of "\<lparr>merchant_domain = ''acme.com'', raw = JObj [(''disclose:shipping'', JStr ''free'')],
               signals = [(''disclose:shipping'', JStr ''free'')], verifier = JNull,
               verified_at = JNull, error = None\<rparr>" sample_rt]
  have "score sample_rt \<lparr>merchant_domain = ''acme.com'', raw = JObj [(''disclose:shipping'', JStr ''free'')],
        signals = [(''disclose:shipping'', JStr ''free'')], verifier = JNull,
        verified_at = JNull, error = None\<rparr> = Inr None"
    by (simp add: scored_keys)
  with first show ?thesis by simp
qed

section \<open>The score as a weighted average\<close>

lemma weights_signed: "weights = map signed score_table"
  by (simp add: weights_def score_table_def signed_def)

lemma good_rows: "list_all good_row score_table"
  by code_simp

lemma numeric_py_float:
  assumes "numeric v = Some x"
  shows "py_float rt v = Inr x" and "v \<noteq> JNull"
  using assms by (cases v; simp add: numeric_def split: sum.splits)+

lemma score_key_row:
  assumes "good_row row" and "\<forall>v. map_of sigs (fst row) = Some v \<longrightarrow> numeric v \<noteq> None"
  shows "score_key rt sigs (signed row) (sc, tw)
     = Inr (case row_of sigs row of
              None \<Rightarrow> (sc, tw)
            | Some p \<Rightarrow> (fadd sc (contribution p), fadd tw (abs_weight p)))"
proof -
  obtain k mx w lower where row: "row = (k, mx, w, lower)" by (cases row)
  show ?thesis
  proof (cases "map_of sigs k")
    case None
    then show ?thesis
      by (simp add: row score_key_def signed_def row_of_def dict_get_def)
  next
    case (Some v)
    with assms(2) row obtain x where x: "numeric v = Some x" by auto
    from numeric_py_float [OF x] have pf: "py_float rt v = Inr x" and nn: "v \<noteq> JNull"
      by simp_all
    from assms(1) row have mx: "fval mx \<noteq> Some 0"
      and neg: "fless (if lower then fneg w else w) (Fin 0) = lower"
      and ab: "fabs (if lower then fneg w else w) = fabs w"
      by (simp_all add: good_row_def)
    have get: "dict_get sigs k JNull = v"
      by (simp add: dict_get_def Some)
    have "score_key rt sigs (signed row) (sc, tw)
        = Inr (if fless (if lower then fneg w else w) (Fin 0)
               then fadd sc (fmul (fabs (if lower then fneg w else w)) (fsub (Fin 1) (fquot x mx)))
               else fadd sc (fmul (if lower then fneg w else w) (fquot x mx)),
               fadd tw (fabs (if lower then fneg w else w)))"
      using nn pf mx
      by (cases v) (simp_all add: row signed_def score_key_def get fdiv_def)
    also have "\<dots> = Inr (fadd sc (contribution (x, mx, w, lower)),
                        fadd tw (abs_weight (x, mx, w, lower)))"
      unfolding neg ab by (simp add: contribution_def abs_weight_def)
    finally show ?thesis
      by (simp add: row row_of_def Some x)
  qed
qed

lemma score_loop_rows:
  assumes "list_all good_row T"
    and "\<forall>row \<in> set T. \<forall>v. map_of sigs (fst row) = Some v \<longrightarrow> numeric v \<noteq> None"
  shows "score_loop rt sigs (map signed T) (sc, tw)
     = Inr (foldl fadd sc (map contribution (present_rows sigs T)),
            foldl fadd tw (map abs_weight (present_rows sigs T)))"
  using assms
proof (induction T arbitrary: sc tw)
  case (Cons row T)
  then have "score_key rt sigs (signed row) (sc, tw)
     = Inr (case row_of sigs row of
              None \<Rightarrow> (sc, tw)
            | Some p \<Rightarrow> (fadd sc (contribution p), fadd tw (abs_weight p)))"
    by (intro score_key_row) simp_all
  with Cons show ?case
    by (cases "row_of sigs row") simp_all
qed simp

text \<open>The sum of the weights is positive as soon as one key counts.\<close>

lemma positive_sums:
  "list_all (\<lambda>ws. ws = [] \<or> fless (Fin 0) (foldl fadd (Fin 0) ws))
     (subseqs (map row_weight score_table))"
  by code_simp

lemma row_of_weight: "row_of sigs row = Some p \<Longrightarrow> abs_weight p = row_weight row"
  by (cases row) (auto simp: row_of_def abs_weight_def row_weight_def split: option.splits)

lemma present_weights_subseq:
  "map abs_weight (present_rows sigs T) \<in> set (subseqs (map row_weight T))"
proof (induction T)
  case (Cons row T)
  show ?case
  proof (cases "row_of sigs row")
    case None
    with Cons show ?thesis by (simp add: Let_def)
  next
    case (Some p)
    with Cons row_of_weight [OF Some] show ?thesis by (simp add: Let_def)
  qed
qed simp

lemma present_rows_nonempty:
  "row \<in> set T \<Longrightarrow> row_of sigs row \<noteq> None \<Longrightarrow> present_rows sigs T \<noteq> []"
  by (induction T) (auto split: option.splits)

lemma present_rows_cong:
  "\<forall>k \<in> set (map fst T). map_of sigs k = map_of sigs' k
   \<Longrightarrow> present_rows sigs T = present_rows sigs' T"
  by (induction T) (auto simp: row_of_def split: option.splits)

lemma scored_keys_table: "scored_keys = map fst score_table"
  by (simp add: scored_keys_def weights_signed signed_def split_beta)

lemma weighted_average_cong:
  assumes "\<forall>k \<in> set scored_keys. map_of sigs k = map_of sigs' k"
  shows "weighted_average sigs = weighted_average sigs'"
  using present_rows_cong [of score_table sigs sigs'] assms
  by (simp add: weighted_average_def scored_keys_table)

lemma fless_zero_nonzero: "fless (Fin 0) t \<Longrightarrow> fval t \<noteq> Some 0"
  by (cases t) auto

lemma score_scorable:
  assumes "scorable (signals r)"
  shows "score rt r = map_sum id Some (weighted_average (signals r))"
proof -
  let ?rows = "present_rows (signals r) score_table"
  let ?C = "foldl fadd (Fin 0) (map contribution ?rows)"
  let ?W = "foldl fadd (Fin 0) (map abs_weight ?rows)"
  from assms have numeric: "\<forall>row \<in> set score_table.
      \<forall>v. map_of (signals r) (fst row) = Some v \<longrightarrow> numeric v \<noteq> None"
    by (simp add: scorable_def scored_keys_table)
  from assms obtain row v where row: "row \<in> set score_table"
      and v: "map_of (signals r) (fst row) = Some v"
    by (auto simp: scorable_def scored_keys_table)
  with numeric have "numeric v \<noteq> None" by blast
  with v have "row_of (signals r) row \<noteq> None"
    by (cases row) (auto simp: row_of_def)
  with row have "?rows \<noteq> []" by (rule present_rows_nonempty)
  then have "map abs_weight ?rows \<noteq> []" by simp
  moreover have "map abs_weight ?rows \<in> set (subseqs (map row_weight score_table))"
    by (rule present_weights_subseq)
  ultimately have pos: "fless (Fin 0) ?W"
    using positive_sums by (auto simp: list_all_iff)
  then have nz: "fval ?W \<noteq> Some 0" by (rule fless_zero_nonzero)
  have loop: "score_loop rt (signals r) weights (Fin 0, Fin 0) = Inr (?C, ?W)"
    unfolding weights_signed by (rule score_loop_rows [OF good_rows numeric])
  show ?thesis
    using pos nz
    by (simp add: score_def loop fdiv_def weighted_average_def split: sum.splits)
qed

lemma average_review_5:
  "weighted_average [(''disclose:review_rating'', JFloat (float_literal 5))] = Inr (Fin 1)"
  by code_simp

lemma average_return_1:
  "weighted_average [(''disclose:return_rate'', JFloat (float_literal 1))] = Inr (Fin 0)"
  by code_simp

lemma average_scenario:
  "weighted_average
     [(''disclose:review_rating'', JFloat (float_literal (42 / 10))),
      (''disclose:return_rate'', JFloat (float_literal (8 / 100)))]
   = Inr (float_literal (873 / 1000))"
  by code_simp

text \<open>
  C5. When at least one of the four scored keys is present and the scored keys
  present have numeric values, \<open>score\<close> is the weighted average of the
  specification: the sum of the contributions over the sum of the \<open>|weight|\<close> of the
  keys present, rounded to three decimal places. With \<open>review_rating = 5.0\<close> as the
  only scored key the score is 1.0; with \<open>return_rate = 1.0\<close> as the only scored
  key it is 0.0. All arithmetic is that of binary64.
\<close>

theorem score_weighted_average:
  "(scorable (signals r) \<longrightarrow> score rt r = map_sum id Some (weighted_average (signals r)))
   \<and> (map_of (signals r) ''disclose:review_rating'' = Some (JFloat (float_literal 5))
        \<and> map_of (signals r) ''disclose:return_rate'' = None
        \<and> map_of (signals r) ''disclose:dispute_rate'' = None
        \<and> map_of (signals r) ''disclose:fulfillment_days_p50'' = None
      \<longrightarrow> score rt r = Inr (Some (Fin 1)))
   \<and> (map_of (signals r) ''disclose:review_rating'' = None
        \<and> map_of (signals r) ''disclose:return_rate'' = Some (JFloat (float_literal 1))
        \<and> map_of (signals r) ''disclose:dispute_rate'' = None
        \<and> map_of (signals r) ''disclose:fulfillment_days_p50'' = None
      \<longrightarrow> score rt r = Inr (Some (Fin 0)))"
proof (intro conjI impI)
  assume "scorable (signals r)"
  then show "score rt r = map_sum id Some (weighted_average (signals r))"
    by (rule score_scorable)
next
  assume only: "map_of (signals r) ''disclose:review_rating'' = Some (JFloat (float_literal 5))
        \<and> map_of (signals r) ''disclose:return_rate'' = None
        \<and> map_of (signals r) ''disclose:dispute_rate'' = None
        \<and> map_of (signals r) ''disclose:fulfillment_days_p50'' = None"
  then have "scorable (signals r)"
    by (simp add: scorable_def scored_keys numeric_def)
  moreover from only have "weighted_average (signals r)
      = weighted_average [(''disclose:review_rating'', JFloat (float_literal 5))]"
    by (intro weighted_average_cong) (simp add: scored_keys)
  ultimately show "score rt r = Inr (Some (Fin 1))"
    by (simp add: score_scorable average_review_5)
next
  assume only: "map_of (signals r) ''disclose:review_rating'' = None
        \<and> map_of (signals r) ''disclose:return_rate'' = Some (JFloat (float_literal 1))
        \<and> map_of (signals r) ''disclose:dispute_rate'' = None
        \<and> map_of (signals r) ''disclose:fulfillment_days_p50'' = None"
  then have "scorable (signals r)"
    by (simp add: scorable_def scored_keys numeric_def)
  moreover from only have "weighted_average (signals r)
      = weighted_average [(''disclose:return_rate'', JFloat (float_literal 1))]"
    by (intro weighted_average_cong) (simp add: scored_keys)
  ultimately show "score rt r = Inr (Some (Fin 0))"
    by (simp add: score_scorable average_return_1)
qed

theorem score_weighted_average_witness:
  "score sample_rt
     \<lparr>merchant_domain = ''acme.com'', raw = JObj [],
      signals = [(''disclose:review_rating'', JFloat (float_literal (42 / 10))),
                 (''disclose:return_rate'', JFloat (float_literal (8 / 100)))],
      verifier = JNull, verified_at = JNull, error = None\<rparr>
     = Inr (Some (float_literal (873 / 1000)))
   \<and> score sample_rt
     \<lparr>merchant_domain = ''acme.com'', raw = JObj [],
      signals = [(''disclose:review_rating'', JFloat (float_literal 5))],
      verifier = JNull, verified_at = JNull, error = None\<rparr>
     = Inr (Some (Fin 1))
   \<and> score sample_rt
     \<lparr>merchant_domain = ''acme.com'', raw = JObj [],
      signals = [(''disclose:return_rate'', JFloat (float_literal 1))],
      verifier = JNull, verified_at = JNull, error = None\<rparr>
     = Inr (Some (Fin 0))"
proof (intro conjI)
  let ?sigs = "[(''disclose:review_rating'', JFloat (float_literal (42 / 10))),
               (''disclose:return_rate'', JFloat (float_literal (8 / 100)))]"
  let ?r = "\<lparr>merchant_domain = ''acme.com'', raw = JObj [], signals = ?sigs,
             verifier = JNull, verified_at = JNull, error = None\<rparr>"
  have "scorable (signals ?r)"
    by (simp add: scorable_def scored_keys numeric_def)
  with score_weighted_average [of ?r sample_rt]
  have "score sample_rt ?r = map_sum id Some (weighted_average (signals ?r))"
    by blast
  also have "signals ?r = ?sigs" by simp
  finally show "score sample_rt ?r = Inr (Some (float_literal (873 / 1000)))"
    unfolding average_scenario by simp
next
  show "score sample_rt
     \<lparr>merchant_domain = ''acme.com'', raw = JObj [],
      signals = [(''disclose:review_rating'', JFloat (float_literal 5))],
      verifier = JNull, verified_at = JNull, error = None\<rparr>
     = Inr (Some (Fin 1))"
    using score_weighted_average
      [of "\<lparr>merchant_domain = ''acme.com'', raw = JObj [],
            signals = [(''disclose:review_rating'', JFloat (float_literal 5))],
            verifier = JNull, verified_at = JNull, error = None\<rparr>" sample_rt]
    by simp
next
  show "score sample_rt
     \<lparr>merchant_domain = ''acme.com'', raw = JObj [],
      signals = [(''disclose:return_rate'', JFloat (float_literal 1))],
      verifier = JNull, verified_at = JNull, error = None\<rparr>
     = Inr (Some (Fin 0))"
    using score_weighted_average
      [of "\<lparr>merchant_domain = ''acme.com'', raw = JObj [],
            signals = [(''disclose:return_rate'', JFloat (float_literal 1))],
            verifier = JNull, verified_at = JNull, error = None\<rparr>" sample_rt]
    by simp
qed

end
